theory Spec2Isabelle
  imports Complex_Main "HOL-Library.Sublist"
begin

section \<open>Python values and exceptions\<close>

text \<open>
  The three servers of the repository (\<^verbatim>\<open>flask_model_server.py\<close>, \<^verbatim>\<open>seldon_model.py\<close>,
  \<^verbatim>\<open>model_server.py\<close>) reformat a request, run an R script in a child process and
  reshape its answer. A value that came out of \<^verbatim>\<open>json.loads\<close> or Flask's
  \<^verbatim>\<open>get_json\<close> is a \<open>json\<close> tree: \<open>JNull\<close> is \<^verbatim>\<open>None\<close>, a dictionary is the list
  of its items (keys are strings, looked up with \<open>map_of\<close>). Python floats are
  modelled by real numbers: rounding of IEEE arithmetic is not part of the model.
\<close>

datatype json =
    JNull
  | JBool bool
  | JInt int
  | JFloat real
  | JStr string
  | JArr "json list"
  | JObj "(string \<times> json) list"

datatype exc_type =
    KeyError | IndexError | TypeError | ValueError | AttributeError
  | RuntimeError | TimeoutExpired | JSONDecodeError | OSError

text \<open>
  An exception object: its class and the text \<^verbatim>\<open>str(e)\<close> gives. The texts of the
  exceptions the repository raises itself are the ones of the source; the texts of
  the interpreter's own TypeError, IndexError and AttributeError are shortened (they
  name the type of the operand).
\<close>

datatype py_exc = PyExc exc_type string

fun exc_class :: "py_exc \<Rightarrow> exc_type" where
  "exc_class (PyExc c m) = c"

fun str_exc :: "py_exc \<Rightarrow> string" where
  "str_exc (PyExc c m) = m"

text \<open>Sequencing of statements that may raise: the first exception ends the block.\<close>

definition exc_bind :: "py_exc + 'a \<Rightarrow> ('a \<Rightarrow> py_exc + 'b) \<Rightarrow> py_exc + 'b" where
  "exc_bind m f = (case m of Inl e \<Rightarrow> Inl e | Inr v \<Rightarrow> f v)"

text \<open>\<^verbatim>\<open>not data\<close>: the falsy values are None, False, zero, and the empty containers.\<close>

fun truthy :: "json \<Rightarrow> bool" where
  "truthy JNull = False"
| "truthy (JBool b) = b"
| "truthy (JInt i) = (i \<noteq> 0)"
| "truthy (JFloat r) = (r \<noteq> 0)"
| "truthy (JStr s) = (s \<noteq> [])"
| "truthy (JArr xs) = (xs \<noteq> [])"
| "truthy (JObj kvs) = (kvs \<noteq> [])"

text \<open>
  \<^verbatim>\<open>k in v\<close> for a string \<open>k\<close>: key membership in a dictionary, element membership
  in a list, substring test in a string, TypeError on everything else.
\<close>

fun py_in :: "string \<Rightarrow> json \<Rightarrow> py_exc + bool" where
  "py_in k (JObj kvs) = Inr (map_of kvs k \<noteq> None)"
| "py_in k (JArr xs) = Inr (List.member xs (JStr k))"
| "py_in k (JStr s) = Inr (sublist k s)"
| "py_in k v = Inl (PyExc TypeError ''argument is not iterable'')"

text \<open>\<^verbatim>\<open>v[k]\<close> for a string \<open>k\<close>.\<close>

fun py_getitem :: "json \<Rightarrow> string \<Rightarrow> py_exc + json" where
  "py_getitem (JObj kvs) k =
     (case map_of kvs k of
        None \<Rightarrow> Inl (PyExc KeyError (CHR 0x27 # k @ [CHR 0x27]))
      | Some v \<Rightarrow> Inr v)"
| "py_getitem (JArr xs) k = Inl (PyExc TypeError ''list indices must be integers or slices, not str'')"
| "py_getitem (JStr s) k = Inl (PyExc TypeError ''string indices must be integers'')"
| "py_getitem v k = Inl (PyExc TypeError ''object is not subscriptable'')"

text \<open>\<^verbatim>\<open>v[0]\<close>. A dictionary from JSON has string keys only, so the key 0 is never there.\<close>

fun py_getitem0 :: "json \<Rightarrow> py_exc + json" where
  "py_getitem0 (JArr []) = Inl (PyExc IndexError ''list index out of range'')"
| "py_getitem0 (JArr (x # xs)) = Inr x"
| "py_getitem0 (JStr []) = Inl (PyExc IndexError ''string index out of range'')"
| "py_getitem0 (JStr (c # cs)) = Inr (JStr [c])"
| "py_getitem0 (JObj kvs) = Inl (PyExc KeyError ''0'')"
| "py_getitem0 v = Inl (PyExc TypeError ''object is not subscriptable'')"

text \<open>
  Iteration, as \<^verbatim>\<open>zip\<close> does it: the elements of a list, the characters of a string,
  the keys of a dictionary.
\<close>

fun py_iter :: "json \<Rightarrow> py_exc + json list" where
  "py_iter (JArr xs) = Inr xs"
| "py_iter (JStr s) = Inr (map (\<lambda>c. JStr [c]) s)"
| "py_iter (JObj kvs) = Inr (map (\<lambda>kv. JStr (fst kv)) kvs)"
| "py_iter v = Inl (PyExc TypeError ''object is not iterable'')"

text \<open>\<^verbatim>\<open>dict(zip(names, values))\<close>: \<^verbatim>\<open>zip\<close> stops at the shorter of the two.\<close>

definition dict_zip :: "string list \<Rightarrow> json \<Rightarrow> py_exc + json" where
  "dict_zip names values = exc_bind (py_iter values) (\<lambda>xs. Inr (JObj (zip names xs)))"

text \<open>
  A format specification \<^verbatim>\<open>:.2f\<close> or \<^verbatim>\<open>:.3f\<close> in an f-string: defined on int, float
  and bool; ValueError on a string, TypeError on None, lists and dictionaries.
\<close>

fun format_f :: "json \<Rightarrow> py_exc + unit" where
  "format_f (JInt i) = Inr ()"
| "format_f (JFloat r) = Inr ()"
| "format_f (JBool b) = Inr ()"
| "format_f (JStr s) = Inl (PyExc ValueError ''Unknown format code f for object of type str'')"
| "format_f v = Inl (PyExc TypeError ''unsupported format string'')"

definition feature_names :: "string list" where
  "feature_names = [''age'', ''income'', ''education'', ''experience'', ''credit_score'']"

section \<open>The worker process\<close>

text \<open>
  What \<^verbatim>\<open>subprocess.run(['Rscript', ...], timeout=30)\<close> does, seen from Python: it
  raises (TimeoutExpired after the deadline, OSError when the interpreter cannot be
  started), or it returns the exit status, the standard output and the standard
  error. The standard output is given as \<^verbatim>\<open>json.loads(process.stdout.strip())\<close>
  reads it: the value, or the message of the JSONDecodeError that call raises. The
  worker is a function of the record it is handed, so that a path that never starts
  it does not depend on it.
\<close>

datatype proc =
    Raised py_exc
  | Completed int "string + json" string

definition json_loads :: "string + json \<Rightarrow> py_exc + json" where
  "json_loads out = (case out of Inl m \<Rightarrow> Inl (PyExc JSONDecodeError m) | Inr v \<Rightarrow> Inr v)"

type_synonym worker = "json \<Rightarrow> proc"

text \<open>
  The R routine \<^verbatim>\<open>predict_loan\<close> of the three scripts, from the probability
  \<^verbatim>\<open>prob_approved\<close> the classifier gives:
  \<^verbatim>\<open>probability = as.numeric(prob_approved)\<close>,
  \<^verbatim>\<open>prediction = ifelse(prob_approved > 0.5, "approved", "denied")\<close>,
  \<^verbatim>\<open>confidence = as.numeric(abs(prob_approved - 0.5) * 2)\<close>.
\<close>

record r_result =
  probability :: real
  prediction :: string
  confidence :: real

definition predict_loan :: "real \<Rightarrow> r_result" where
  "predict_loan prob_approved =
     \<lparr> probability = prob_approved,
       prediction = (if prob_approved > 0.5 then ''approved'' else ''denied''),
       confidence = \<bar>prob_approved - 0.5\<bar> * 2 \<rparr>"

text \<open>
  The object \<^verbatim>\<open>cat(toJSON(result, auto_unbox = TRUE))\<close> prints, as \<^verbatim>\<open>json.loads\<close>
  reads it back: with \<^verbatim>\<open>auto_unbox\<close> the three vectors of length one are scalars.
  How \<^verbatim>\<open>jsonlite\<close> prints a number is not in the repository (the scripts pass no
  \<^verbatim>\<open>digits\<close> argument, so the default of the library applies): \<open>digits x\<close> is the
  number read back from the text printed for \<open>x\<close>.
\<close>

definition toJSON :: "(real \<Rightarrow> real) \<Rightarrow> r_result \<Rightarrow> json" where
  "toJSON digits r =
     JObj [(''probability'', JFloat (digits (probability r))),
           (''prediction'', JStr (prediction r)),
           (''confidence'', JFloat (digits (confidence r)))]"

section \<open>flask\_model\_server.py\<close>

type_synonym response = "json \<times> nat"

definition error_response :: "string \<Rightarrow> nat \<Rightarrow> response" where
  "error_response msg code = (JObj [(''error'', JStr msg)], code)"

text \<open>Lines 103-116 of \<^verbatim>\<open>predict\<close>: the shape of the request decides the record.\<close>

definition resolve_instance :: "json \<Rightarrow> py_exc + json" where
  "resolve_instance data =
     exc_bind (py_in ''instances'' data) (\<lambda>has_instances.
       if has_instances then
         exc_bind (py_getitem data ''instances'') py_getitem0
       else
         exc_bind (py_in ''data'' data) (\<lambda>has_data.
           if has_data then
             exc_bind (py_getitem data ''data'') (\<lambda>d.
               exc_bind (py_in ''ndarray'' d) (\<lambda>has_ndarray.
                 if has_ndarray then
                   exc_bind (py_getitem d ''ndarray'') (\<lambda>nd.
                     exc_bind (py_getitem0 nd) (dict_zip feature_names))
                 else Inr d))
           else Inr data))"

text \<open>
  Lines 120-123: the loop over the feature names stops at the first name that is
  not in the record.
\<close>

fun first_missing :: "string list \<Rightarrow> json \<Rightarrow> py_exc + string option" where
  "first_missing [] inst = Inr None"
| "first_missing (f # fs) inst =
     exc_bind (py_in f inst) (\<lambda>present.
       if \<not> present then Inr (Some f) else first_missing fs inst)"

text \<open>Lines 147-160: the response is built from the parsed output, then the log line is formatted.\<close>

definition format_response :: "json \<Rightarrow> json \<Rightarrow> py_exc + response" where
  "format_response result inst =
     exc_bind (py_getitem result ''probability'') (\<lambda>p.
     exc_bind (py_getitem result ''prediction'') (\<lambda>l.
     exc_bind (py_getitem result ''confidence'') (\<lambda>c.
     exc_bind (format_f c) (\<lambda>_.
       Inr (JObj [(''predictions'', JArr [JObj [(''probability'', p), (''prediction'', l),
                                                (''confidence'', c), (''input'', inst)]]),
                  (''model_name'', JStr ''loan-approval-rf''),
                  (''model_version'', JStr ''1.0.0'')], 200)))))"

text \<open>Lines 126-160, the body of the inner \<^verbatim>\<open>try\<close>.\<close>

definition run_r_prediction :: "json \<Rightarrow> worker \<Rightarrow> py_exc + response" where
  "run_r_prediction inst run =
     (case run inst of
        Raised e \<Rightarrow> Inl e
      | Completed returncode out err \<Rightarrow>
          if returncode \<noteq> 0 then Inr (error_response (''R prediction failed: '' @ err) 500)
          else (case out of
                  Inl m \<Rightarrow> Inr (error_response ''Invalid JSON from R script'' 500)
                | Inr result \<Rightarrow> format_response result inst))"

text \<open>Lines 162-166, the handlers of the inner \<^verbatim>\<open>try\<close>.\<close>

definition guarded_prediction :: "json \<Rightarrow> worker \<Rightarrow> py_exc + response" where
  "guarded_prediction inst run =
     (case run_r_prediction inst run of
        Inr r \<Rightarrow> Inr r
      | Inl e \<Rightarrow>
          if exc_class e = TimeoutExpired then Inr (error_response ''Prediction timeout'' 504)
          else Inr (error_response (str_exc e) 500))"

text \<open>Lines 99-166, the body of the outer \<^verbatim>\<open>try\<close>; \<open>data\<close> is what \<^verbatim>\<open>get_json()\<close> returned.\<close>

definition predict_body :: "json \<Rightarrow> worker \<Rightarrow> py_exc + response" where
  "predict_body data run =
     (if \<not> truthy data then Inr (error_response ''No JSON data provided'' 400)
      else
        exc_bind (resolve_instance data) (\<lambda>inst.
        exc_bind (first_missing feature_names inst) (\<lambda>missing.
          case missing of
            Some f \<Rightarrow> Inr (error_response (''Missing required feature: '' @ f) 400)
          | None \<Rightarrow> guarded_prediction inst run)))"

text \<open>The whole of \<^verbatim>\<open>predict\<close>, with the handler of the outer \<^verbatim>\<open>try\<close> (lines 168-170).\<close>

definition flask_predict :: "json \<Rightarrow> worker \<Rightarrow> py_exc + response" where
  "flask_predict data run =
     (case predict_body data run of
        Inr r \<Rightarrow> Inr r
      | Inl e \<Rightarrow> Inr (error_response (str_exc e) 500))"

text \<open>
  The file system is the set of paths that exist. \<^verbatim>\<open>health\<close> (lines 66-84) asks
  \<^verbatim>\<open>os.path.exists\<close> on every call; that call returns False instead of raising.
\<close>

type_synonym filesystem = "string set"

definition flask_model_path :: string where
  "flask_model_path = ''/app/model/flask_random_forest.rds''"

definition flask_health :: "filesystem \<Rightarrow> response" where
  "flask_health fs =
     (let model_exists = (flask_model_path \<in> fs) in
      if \<not> model_exists then
        (JObj [(''status'', JStr ''unhealthy''), (''message'', JStr ''Model file not found''),
               (''model_loaded'', JBool False)], 503)
      else
        (JObj [(''status'', JStr ''healthy''), (''model_loaded'', JBool True),
               (''version'', JStr ''1.0.0'')], 200))"

section \<open>Inputs of the two model classes\<close>

text \<open>
  \<^verbatim>\<open>seldon_model.py\<close> and \<^verbatim>\<open>model_server.py\<close> are called by the serving framework
  with a Python object \<^verbatim>\<open>X\<close>: a dictionary, a list, a numpy array or anything else.
  A numpy array is given by its number of dimensions and the nested list its
  \<^verbatim>\<open>tolist()\<close> returns: a 0-dimensional array holds one value; a 1-dimensional array
  has a dtype and its elements; an array of two or more dimensions is the list of its
  rows \<^verbatim>\<open>X[i].tolist()\<close>. The elements of a numpy array are numpy scalars; of those
  only \<^verbatim>\<open>numpy.float64\<close> is a subclass of a Python number type that \<^verbatim>\<open>json\<close> encodes.
\<close>

datatype dtype = DInt64 | DFloat64 | DBool

datatype ndarray =
    Nd0 json
  | Nd1 dtype "json list"
  | NdN "json list"

datatype py_input =
    InDict "(string \<times> json) list"
  | InList "json list"
  | InNdarray ndarray
  | InOther

fun json_encodable :: "dtype \<Rightarrow> bool" where
  "json_encodable DFloat64 = True"
| "json_encodable d = False"

text \<open>A Python number as a float: bool is a subclass of int.\<close>

fun py_number :: "json \<Rightarrow> py_exc + real" where
  "py_number (JInt i) = Inr (real_of_int i)"
| "py_number (JFloat r) = Inr r"
| "py_number (JBool b) = Inr (if b then 1 else 0)"
| "py_number v = Inl (PyExc TypeError ''unsupported operand type(s) for -'')"

section \<open>seldon\_model.py\<close>

text \<open>
  Lines 79-90 of \<^verbatim>\<open>LoanApprovalModel.predict\<close>. A list passes the \<^verbatim>\<open>isinstance\<close>
  test and has no attribute \<^verbatim>\<open>shape\<close>; \<^verbatim>\<open>X[0]\<close> of a 0-dimensional array or of an
  array with no row raises IndexError.
\<close>

fun seldon_input_data :: "py_input \<Rightarrow> py_exc + json" where
  "seldon_input_data (InList xs) = Inl (PyExc AttributeError ''list object has no attribute shape'')"
| "seldon_input_data (InNdarray (Nd1 d xs)) = dict_zip feature_names (JArr xs)"
| "seldon_input_data (InNdarray (Nd0 v)) = Inl (PyExc IndexError ''too many indices for array'')"
| "seldon_input_data (InNdarray (NdN [])) = Inl (PyExc IndexError ''index 0 is out of bounds for axis 0 with size 0'')"
| "seldon_input_data (InNdarray (NdN (row # rows))) = dict_zip feature_names row"
| "seldon_input_data X = Inl (PyExc ValueError ''Unsupported input format'')"

type_synonym prob_array = "real list list"

definition default_prediction :: prob_array where
  "default_prediction = [[0.5, 0.5]]"

text \<open>
  Lines 110-117: \<^verbatim>\<open>1.0 - result["probability"]\<close>, the log line with
  \<^verbatim>\<open>result['prediction']\<close> and the probability formatted \<^verbatim>\<open>:.3f\<close>, then the array.
\<close>

definition seldon_array :: "json \<Rightarrow> py_exc + prob_array" where
  "seldon_array result =
     exc_bind (py_getitem result ''probability'') (\<lambda>v.
     exc_bind (py_number v) (\<lambda>p.
     exc_bind (py_getitem result ''prediction'') (\<lambda>l.
     exc_bind (format_f v) (\<lambda>_.
       Inr [[1.0 - p, p]]))))"

text \<open>Lines 96-117, the body of the inner \<^verbatim>\<open>try\<close>.\<close>

definition seldon_run :: "json \<Rightarrow> worker \<Rightarrow> py_exc + prob_array" where
  "seldon_run input_data run =
     (case run input_data of
        Raised e \<Rightarrow> Inl e
      | Completed returncode out err \<Rightarrow>
          if returncode \<noteq> 0 then Inr default_prediction
          else exc_bind (json_loads out) seldon_array)"

text \<open>
  The whole of \<^verbatim>\<open>predict\<close>: both handlers of the inner \<^verbatim>\<open>try\<close> (lines 119-124) and
  the handler of the outer one (lines 126-128) return the same array.
\<close>

definition seldon_predict :: "py_input \<Rightarrow> worker \<Rightarrow> py_exc + prob_array" where
  "seldon_predict X run =
     (case exc_bind (seldon_input_data X) (\<lambda>input_data.
             case seldon_run input_data run of
               Inr a \<Rightarrow> Inr a
             | Inl e \<Rightarrow>
                 if exc_class e = TimeoutExpired then Inr default_prediction
                 else Inr default_prediction) of
        Inr a \<Rightarrow> Inr a
      | Inl e \<Rightarrow> Inr default_prediction)"

text \<open>\<^verbatim>\<open>health_status\<close> (lines 130-139).\<close>

definition seldon_health_status :: "filesystem \<Rightarrow> json" where
  "seldon_health_status fs =
     (let model_exists = (flask_model_path \<in> fs) in
      JObj [(''status'', JStr (if model_exists then ''healthy'' else ''unhealthy'')),
            (''model_loaded'', JBool model_exists)])"

section \<open>model\_server.py\<close>

text \<open>The state of an \<^verbatim>\<open>RModelServer\<close> that its methods read and write.\<close>

record rms =
  model_ready :: bool

definition init_rms :: rms where
  "init_rms = \<lparr> model_ready = False \<rparr>"

text \<open>\<^verbatim>\<open>load\<close> (lines 31-85) stores the script text and sets the flag; it reads no file.\<close>

definition load :: "rms \<Rightarrow> rms" where
  "load s = s\<lparr> model_ready := True \<rparr>"

definition rms_model_path :: string where
  "rms_model_path = ''/app/model/random_forest_minio.rds''"

text \<open>
  Lines 105-113 of \<^verbatim>\<open>RModelServer.predict\<close>: the dictionary \<^verbatim>\<open>input_data\<close>, and
  whether \<^verbatim>\<open>json\<close> can encode its values. Iterating a 1-dimensional array yields numpy
  scalars, iterating an array of more dimensions yields arrays; \<^verbatim>\<open>len\<close> of a
  0-dimensional array raises TypeError.
\<close>

definition zip_features :: "json list \<Rightarrow> json" where
  "zip_features xs = JObj (zip feature_names (take (length feature_names) xs))"

fun rms_input_data :: "py_input \<Rightarrow> py_exc + json \<times> bool" where
  "rms_input_data (InDict kvs) = Inr (JObj kvs, True)"
| "rms_input_data (InList xs) =
     (if length xs \<ge> length feature_names then Inr (zip_features xs, True)
      else Inl (PyExc ValueError ''Input array too short''))"
| "rms_input_data (InNdarray (Nd0 v)) = Inl (PyExc TypeError ''len() of unsized object'')"
| "rms_input_data (InNdarray (Nd1 d xs)) =
     (if length xs \<ge> length feature_names then Inr (zip_features xs, json_encodable d)
      else Inl (PyExc ValueError ''Input array too short''))"
| "rms_input_data (InNdarray (NdN rows)) =
     (if length rows \<ge> length feature_names then Inr (zip_features rows, False)
      else Inl (PyExc ValueError ''Input array too short''))"
| "rms_input_data InOther = Inl (PyExc ValueError ''Unsupported input format'')"

text \<open>Lines 116-118.\<close>

definition rms_validate :: "json \<Rightarrow> py_exc + unit" where
  "rms_validate input_data =
     exc_bind (first_missing feature_names input_data) (\<lambda>missing.
       case missing of
         Some f \<Rightarrow> Inl (PyExc ValueError (''Missing required feature: '' @ f))
       | None \<Rightarrow> Inr ())"

definition feature_importance :: json where
  "feature_importance =
     JObj [(''age'', JFloat 0.2), (''income'', JFloat 0.3), (''education'', JFloat 0.15),
           (''experience'', JFloat 0.15), (''credit_score'', JFloat 0.2)]"

text \<open>Lines 143-157: the response, then the log line with the confidence formatted \<^verbatim>\<open>:.2f\<close>.\<close>

definition rms_response :: "json \<Rightarrow> py_exc + json" where
  "rms_response result =
     exc_bind (py_getitem result ''probability'') (\<lambda>p.
     exc_bind (py_getitem result ''prediction'') (\<lambda>l.
     exc_bind (py_getitem result ''confidence'') (\<lambda>c.
     exc_bind (format_f c) (\<lambda>_.
       Inr (JObj [(''predictions'', JArr [p]), (''prediction_class'', l),
                  (''confidence'', c), (''feature_importance'', feature_importance)])))))"

text \<open>Lines 127-157, the body of the inner \<^verbatim>\<open>try\<close>.\<close>

definition rms_invoke :: "json \<Rightarrow> worker \<Rightarrow> py_exc + json" where
  "rms_invoke input_data run =
     (case run input_data of
        Raised e \<Rightarrow> Inl e
      | Completed returncode out err \<Rightarrow>
          if returncode \<noteq> 0 then Inl (PyExc RuntimeError (''R prediction failed: '' @ err))
          else exc_bind (json_loads out) rms_response)"

text \<open>
  Lines 120-162. \<^verbatim>\<open>NamedTemporaryFile(delete=False)\<close> creates the file \<open>tmp\<close>, and
  \<^verbatim>\<open>json.dump\<close> writes into it inside the \<^verbatim>\<open>with\<close> block; the \<^verbatim>\<open>try\<close> whose
  \<^verbatim>\<open>finally\<close> removes the file starts after that block.
\<close>

definition rms_with_tempfile ::
  "json \<Rightarrow> bool \<Rightarrow> worker \<Rightarrow> string \<Rightarrow> filesystem \<Rightarrow> (py_exc + json) \<times> filesystem" where
  "rms_with_tempfile input_data encodable run tmp fs =
     (let fs1 = insert tmp fs in
      if \<not> encodable then
        (Inl (PyExc TypeError ''Object is not JSON serializable''), fs1)
      else
        (rms_invoke input_data run, (if tmp \<in> fs1 then fs1 - {tmp} else fs1)))"

text \<open>Lines 99-162, the body of the outer \<^verbatim>\<open>try\<close>, after the call of \<^verbatim>\<open>load\<close>.\<close>

definition rms_predict_body ::
  "py_input \<Rightarrow> worker \<Rightarrow> string \<Rightarrow> filesystem \<Rightarrow> (py_exc + json) \<times> filesystem" where
  "rms_predict_body X run tmp fs =
     (case exc_bind (rms_input_data X) (\<lambda>d. exc_bind (rms_validate (fst d)) (\<lambda>_. Inr d)) of
        Inl e \<Rightarrow> (Inl e, fs)
      | Inr d \<Rightarrow> rms_with_tempfile (fst d) (snd d) run tmp fs)"

definition rms_error :: "string \<Rightarrow> json" where
  "rms_error msg =
     JObj [(''predictions'', JArr [JFloat 0.0]), (''prediction_class'', JStr ''error''),
           (''confidence'', JFloat 0.0), (''error'', JStr msg)]"

text \<open>
  The whole of \<^verbatim>\<open>predict\<close>: the result, the state of the server and the file system
  after the call. \<open>tmp\<close> is the name \<^verbatim>\<open>NamedTemporaryFile\<close> chooses.
\<close>

definition rms_predict ::
  "rms \<Rightarrow> py_input \<Rightarrow> worker \<Rightarrow> string \<Rightarrow> filesystem \<Rightarrow> (py_exc + json) \<times> rms \<times> filesystem" where
  "rms_predict s X run tmp fs =
     (let s1 = (if \<not> model_ready s then load s else s);
          r = rms_predict_body X run tmp fs
      in (case fst r of
            Inr v \<Rightarrow> (Inr v, s1, snd r)
          | Inl e \<Rightarrow> (Inr (rms_error (str_exc e)), s1, snd r)))"

text \<open>\<^verbatim>\<open>health_status\<close> (lines 173-181).\<close>

definition rms_health_status :: "rms \<Rightarrow> json" where
  "rms_health_status s =
     JObj [(''status'', JStr (if model_ready s then ''healthy'' else ''loading'')),
           (''model_loaded'', JBool (model_ready s)),
           (''version'', JStr ''1.0.0'')]"

section \<open>Invocation failures\<close>


section \<open>Example inputs\<close>

text \<open>The request of the API documentation (lines 204-210 of \<^verbatim>\<open>flask_model_server.py\<close>).\<close>

definition example_record :: json where
  "example_record = JObj [(''age'', JInt 35), (''income'', JInt 75000), (''education'', JInt 16),
                          (''experience'', JInt 10), (''credit_score'', JInt 750)]"



definition example_row :: "json list" where
  "example_row = [JInt 35, JInt 75000, JInt 16, JInt 10, JInt 750]"

text \<open>A worker that cannot be started.\<close>

definition no_worker :: worker where
  "no_worker = (\<lambda>_. Raised (PyExc OSError ''No such file or directory''))"



definition crashed :: "string \<Rightarrow> worker" where
  "crashed err = (\<lambda>_. Completed 1 (Inl ''Expecting value'') err)"

definition answering :: "real \<Rightarrow> worker" where
  "answering p = (\<lambda>_. Completed 0 (Inr (toJSON (\<lambda>x. x) (predict_loan p))) [])"

text \<open>The array \<^verbatim>\<open>numpy.array([35, 75000, 16, 10, 750])\<close>.\<close>

definition example_array :: py_input where
  "example_array = InNdarray (Nd1 DInt64 example_row)"

text \<open>A Seldon request whose first row has three values only.\<close>

definition short_request :: json where
  "short_request =
     JObj [(''data'', JObj [(''ndarray'', JArr [JArr [JInt 35, JInt 75000, JInt 16]])])]"

section \<open>Properties\<close>

subsection \<open>Shared lemmas\<close>

lemma exc_bind_simps [simp]:
  "exc_bind (Inl e) f = Inl e"
  "exc_bind (Inr v) f = f v"
  by (simp_all add: exc_bind_def)

lemma guarded_prediction_returns: "\<exists>r. guarded_prediction inst run = Inr r"
  by (simp add: guarded_prediction_def split: sum.splits)


lemma flask_predict_valid:
  assumes "truthy data" "resolve_instance data = Inr inst"
    "first_missing feature_names inst = Inr None"
  shows "flask_predict data run = guarded_prediction inst run"
proof -
  obtain r where r: "guarded_prediction inst run = Inr r"
    using guarded_prediction_returns by blast
  show ?thesis using assms r by (simp add: flask_predict_def predict_body_def)
qed

lemma flask_predict_missing:
  assumes "truthy data" "resolve_instance data = Inr inst"
    "first_missing feature_names inst = Inr (Some f)"
  shows "flask_predict data run = Inr (error_response (''Missing required feature: '' @ f) 400)"
  using assms by (simp add: flask_predict_def predict_body_def)


subsection \<open>The worker's result\<close>




subsection \<open>Resolving the record\<close>




subsection \<open>Missing fields\<close>





subsection \<open>Invocation failures\<close>




lemma guarded_nonzero:
  "run inst = Completed rc out err \<Longrightarrow> rc \<noteq> 0 \<Longrightarrow>
   guarded_prediction inst run = Inr (error_response (''R prediction failed: '' @ err) 500)"
  by (simp add: guarded_prediction_def run_r_prediction_def)











lemma seldon_example_input:
  "seldon_input_data example_array = Inr example_record"
  by (simp add: example_array_def example_row_def example_record_def dict_zip_def
      feature_names_def)




subsection \<open>The deadline\<close>





subsection \<open>The worker's diagnostic output\<close>

lemma rms_predict_nonzero:
  assumes "rms_input_data X = Inr (d, True)" "rms_validate d = Inr ()"
    "run d = Completed rc out err" "rc \<noteq> 0"
  shows "rms_predict s X run tmp fs =
     (Inr (rms_error (''R prediction failed: '' @ err)), s\<lparr>model_ready := True\<rparr>, fs - {tmp})"
  using assms
  by (simp add: rms_predict_def rms_predict_body_def rms_with_tempfile_def rms_invoke_def
      load_def)

text \<open>
  Claim C6, as it is stated, fails on the model class of \<^verbatim>\<open>seldon_model.py\<close>: after
  a worker that exits with status 1 the caller receives the default array whatever
  the worker wrote to its standard error (the text goes to the log only).
\<close>

theorem seldon_drops_stderr:
  "seldon_predict example_array (crashed ''Error in readRDS: cannot open file'')
     = Inr [[0.5, 0.5]]
   \<and> seldon_predict example_array (crashed ''Error: object not found'') = Inr [[0.5, 0.5]]"
  by (simp add: seldon_predict_def seldon_example_input seldon_run_def crashed_def
      default_prediction_def)

text \<open>
  Claim C6, amended. When the worker exits with a status other than zero, the REST
  endpoint answers a valid request with the status 500 and the message "R prediction
  failed: " followed by the worker's standard error, and the model server of
  \<^verbatim>\<open>model_server.py\<close> returns its error object with the same message. The model
  class of \<^verbatim>\<open>seldon_model.py\<close> returns its default array.
\<close>

theorem nonzero_exit_carries_stderr:
  assumes "run inst = Completed rc out err" and "rc \<noteq> 0"
  shows "(truthy data \<and> resolve_instance data = Inr inst
          \<and> first_missing feature_names inst = Inr None \<longrightarrow>
            flask_predict data run = Inr (error_response (''R prediction failed: '' @ err) 500))
     \<and> (rms_input_data X = Inr (inst, True) \<and> rms_validate inst = Inr () \<longrightarrow>
            fst (rms_predict s X run tmp fs) = Inr (rms_error (''R prediction failed: '' @ err)))
     \<and> (seldon_input_data X' = Inr inst \<longrightarrow> seldon_predict X' run = Inr default_prediction)"
proof -
  have a: "flask_predict data run = Inr (error_response (''R prediction failed: '' @ err) 500)"
    if "truthy data \<and> resolve_instance data = Inr inst
          \<and> first_missing feature_names inst = Inr None"
    using that assms by (simp add: flask_predict_valid guarded_nonzero)
  have b: "fst (rms_predict s X run tmp fs) = Inr (rms_error (''R prediction failed: '' @ err))"
    if "rms_input_data X = Inr (inst, True) \<and> rms_validate inst = Inr ()"
    using that assms by (simp add: rms_predict_nonzero)
  have c: "seldon_predict X' run = Inr default_prediction"
    if "seldon_input_data X' = Inr inst"
    using that assms by (simp add: seldon_predict_def seldon_run_def)
  from a b c show ?thesis by blast
qed

theorem nonzero_exit_carries_stderr_witness:
  "flask_predict example_record (crashed ''Error in readRDS'') =
     Inr (JObj [(''error'', JStr ''R prediction failed: Error in readRDS'')], 500)
   \<and> fst (rms_predict init_rms (InList example_row) (crashed ''Error in readRDS'')
            ''/tmp/tmp0.json'' {}) =
     Inr (JObj [(''predictions'', JArr [JFloat 0.0]), (''prediction_class'', JStr ''error''),
                (''confidence'', JFloat 0.0),
                (''error'', JStr ''R prediction failed: Error in readRDS'')])
   \<and> seldon_predict example_array (crashed ''Error in readRDS'') = Inr default_prediction"
proof -
  have h: "crashed ''Error in readRDS'' example_record
      = Completed 1 (Inl ''Expecting value'') ''Error in readRDS''" "(1::int) \<noteq> 0"
    by (simp_all add: crashed_def)
  have v: "truthy example_record \<and> resolve_instance example_record = Inr example_record
     \<and> first_missing feature_names example_record = Inr None"
    by (simp add: example_record_def resolve_instance_def feature_names_def)
  have m: "rms_input_data (InList example_row) = Inr (example_record, True)
     \<and> rms_validate example_record = Inr ()"
    by (simp add: example_row_def example_record_def zip_features_def feature_names_def
        rms_validate_def)
  from nonzero_exit_carries_stderr [where run = "crashed ''Error in readRDS''"
      and inst = example_record and data = example_record and X = "InList example_row"
      and s = init_rms and tmp = "''/tmp/tmp0.json''" and fs = "{}" and X' = example_array,
      OF h] v m seldon_example_input
  show ?thesis by (simp add: error_response_def rms_error_def)
qed

subsection \<open>Readiness\<close>

lemma rms_predict_ready: "model_ready (fst (snd (rms_predict s X run tmp fs)))"
  by (simp add: rms_predict_def load_def Let_def split: sum.splits)

text \<open>
  Claim C7, as it is stated, fails on \<^verbatim>\<open>RModelServer.health_status\<close>: in a file
  system without the model file (and none appears during the call) the server
  reports "healthy" once \<^verbatim>\<open>predict\<close> has been called, and a server that has not been
  used yet reports "loading" wherever the file is.
\<close>

theorem rms_health_ignores_artifact:
  "snd (snd (rms_predict init_rms (InList example_row) no_worker ''/tmp/tmp0.json'' {})) = {}
   \<and> rms_health_status
        (fst (snd (rms_predict init_rms (InList example_row) no_worker ''/tmp/tmp0.json'' {})))
       = JObj [(''status'', JStr ''healthy''), (''model_loaded'', JBool True),
               (''version'', JStr ''1.0.0'')]
   \<and> rms_health_status init_rms
       = JObj [(''status'', JStr ''loading''), (''model_loaded'', JBool False),
               (''version'', JStr ''1.0.0'')]"
  by (simp add: rms_predict_def rms_predict_body_def rms_with_tempfile_def rms_validate_def
      rms_invoke_def no_worker_def rms_health_status_def init_rms_def load_def
      example_row_def zip_features_def feature_names_def Let_def)

text \<open>
  Claim C7, amended. The health queries of the REST endpoint and of the model class
  of \<^verbatim>\<open>seldon_model.py\<close> look for the model file at each call: the answer is
  "healthy" exactly when the file exists in the file system of that call, so it is
  "unhealthy" (status 503 for the endpoint) once the file is removed and "healthy"
  again once it is back. \<^verbatim>\<open>RModelServer.health_status\<close> reads no file: it reports
  "healthy" exactly when the flag \<^verbatim>\<open>model_ready\<close> is set, which every call of
  \<^verbatim>\<open>predict\<close> does, and "loading" otherwise.
\<close>

theorem health_reflects_artifact:
  "(py_getitem (fst (flask_health fs)) ''status'' = Inr (JStr ''healthy'')
      \<longleftrightarrow> flask_model_path \<in> fs)
   \<and> (snd (flask_health fs) = 200 \<longleftrightarrow> flask_model_path \<in> fs)
   \<and> flask_health (fs - {flask_model_path}) =
       (JObj [(''status'', JStr ''unhealthy''), (''message'', JStr ''Model file not found''),
              (''model_loaded'', JBool False)], 503)
   \<and> flask_health (insert flask_model_path fs) =
       (JObj [(''status'', JStr ''healthy''), (''model_loaded'', JBool True),
              (''version'', JStr ''1.0.0'')], 200)
   \<and> (py_getitem (seldon_health_status fs) ''status'' = Inr (JStr ''healthy'')
      \<longleftrightarrow> flask_model_path \<in> fs)
   \<and> seldon_health_status (fs - {flask_model_path}) =
       JObj [(''status'', JStr ''unhealthy''), (''model_loaded'', JBool False)]
   \<and> seldon_health_status (insert flask_model_path fs) =
       JObj [(''status'', JStr ''healthy''), (''model_loaded'', JBool True)]
   \<and> (py_getitem (rms_health_status s) ''status'' = Inr (JStr ''healthy'')
      \<longleftrightarrow> model_ready s)
   \<and> py_getitem (rms_health_status s) ''status''
       = Inr (JStr (if model_ready s then ''healthy'' else ''loading''))
   \<and> model_ready (fst (snd (rms_predict s X run tmp fs)))"
proof -
  have a: "py_getitem (fst (flask_health fs)) ''status'' = Inr (JStr ''healthy'')
      \<longleftrightarrow> flask_model_path \<in> fs"
    by (simp add: flask_health_def Let_def)
  have b: "snd (flask_health fs) = 200 \<longleftrightarrow> flask_model_path \<in> fs"
    by (simp add: flask_health_def Let_def)
  have c: "flask_health (fs - {flask_model_path}) =
       (JObj [(''status'', JStr ''unhealthy''), (''message'', JStr ''Model file not found''),
              (''model_loaded'', JBool False)], 503)"
    by (simp add: flask_health_def Let_def)
  have d: "flask_health (insert flask_model_path fs) =
       (JObj [(''status'', JStr ''healthy''), (''model_loaded'', JBool True),
              (''version'', JStr ''1.0.0'')], 200)"
    by (simp add: flask_health_def Let_def)
  have e: "py_getitem (seldon_health_status fs) ''status'' = Inr (JStr ''healthy'')
      \<longleftrightarrow> flask_model_path \<in> fs"
    by (simp add: seldon_health_status_def Let_def)
  have f: "seldon_health_status (fs - {flask_model_path}) =
       JObj [(''status'', JStr ''unhealthy''), (''model_loaded'', JBool False)]"
    by (simp add: seldon_health_status_def Let_def)
  have g: "seldon_health_status (insert flask_model_path fs) =
       JObj [(''status'', JStr ''healthy''), (''model_loaded'', JBool True)]"
    by (simp add: seldon_health_status_def Let_def)
  have h: "py_getitem (rms_health_status s) ''status'' = Inr (JStr ''healthy'')
      \<longleftrightarrow> model_ready s"
    by (simp add: rms_health_status_def)
  have i: "py_getitem (rms_health_status s) ''status''
       = Inr (JStr (if model_ready s then ''healthy'' else ''loading''))"
    by (simp add: rms_health_status_def)
  have j: "model_ready (fst (snd (rms_predict s X run tmp fs)))"
    by (rule rms_predict_ready)
  from a b c d e f g h i j show ?thesis by blast
qed

subsection \<open>Arrays\<close>

lemma five_elements:
  assumes "length xs \<ge> length feature_names"
  shows "\<exists>a b c d e rest. xs = a # b # c # d # e # rest"
  using assms
  by (cases xs; simp add: feature_names_def;
      rename_tac a l1, case_tac l1; simp;
      rename_tac b l2, case_tac l2; simp;
      rename_tac c l3, case_tac l3; simp;
      rename_tac d l4, case_tac l4; simp)

lemma zip_features_positional:
  assumes "length xs \<ge> length feature_names"
  shows "zip_features xs =
     JObj [(''age'', xs ! 0), (''income'', xs ! 1), (''education'', xs ! 2),
           (''experience'', xs ! 3), (''credit_score'', xs ! 4)]"
proof -
  from five_elements [OF assms] obtain a b c d e rest where "xs = a # b # c # d # e # rest"
    by blast
  then show ?thesis by (simp add: zip_features_def feature_names_def)
qed

lemma zip_names_positional:
  fixes row :: "json list"
  assumes "length row \<ge> length feature_names"
  shows "zip feature_names row =
     [(''age'', row ! 0), (''income'', row ! 1), (''education'', row ! 2),
      (''experience'', row ! 3), (''credit_score'', row ! 4)]"
proof -
  from five_elements [OF assms] obtain a b c d e rest where "row = a # b # c # d # e # rest"
    by blast
  then show ?thesis by (simp add: feature_names_def)
qed

lemma first_missing_short_row:
  fixes row :: "json list"
  assumes "length row < length feature_names"
  shows "first_missing feature_names (JObj (zip feature_names row))
     = Inr (Some (feature_names ! length row))"
proof -
  from assms consider "row = []" | a where "row = [a]" | a b where "row = [a, b]"
    | a b c where "row = [a, b, c]" | a b c d where "row = [a, b, c, d]"
    by (cases row; simp add: feature_names_def;
        rename_tac a l1, case_tac l1; simp;
        rename_tac b l2, case_tac l2; simp;
        rename_tac c l3, case_tac l3; simp;
        rename_tac d l4, case_tac l4; simp)
  then show ?thesis by cases (simp_all add: feature_names_def)
qed

lemma rms_predict_input_error:
  "rms_input_data X = Inl e \<Longrightarrow>
   rms_predict s X run tmp fs = (Inr (rms_error (str_exc e)), s\<lparr>model_ready := True\<rparr>, fs)"
  by (simp add: rms_predict_def rms_predict_body_def load_def)

text \<open>
  Claim C8, as it is stated, fails on the REST endpoint: a row of three values is not
  refused for its length but, after the zip, for the first field that received no
  value.
\<close>

theorem flask_short_row_missing_field:
  "flask_predict short_request no_worker =
     Inr (error_response ''Missing required feature: experience'' 400)"
  by (simp add: short_request_def flask_predict_def predict_body_def resolve_instance_def
      dict_zip_def feature_names_def)

text \<open>
  Claim C8, amended. An array is mapped by position: element 0 is \<^verbatim>\<open>age\<close>, 1 is
  \<^verbatim>\<open>income\<close>, 2 is \<^verbatim>\<open>education\<close>, 3 is \<^verbatim>\<open>experience\<close>, 4 is \<^verbatim>\<open>credit_score\<close>, in
  the model server for a list or a 1-dimensional array \<^verbatim>\<open>X\<close> and in the REST endpoint
  for the first row of \<^verbatim>\<open>data.ndarray\<close>. With fewer than five elements the model
  server fails with "Input array too short" and starts no worker; the REST endpoint
  answers 400 with "Missing required feature: " and the name at the position of the
  first absent element.
\<close>

theorem array_form_positional:
  "(length xs \<ge> 5 \<longrightarrow>
      rms_input_data (InList xs) =
        Inr (JObj [(''age'', xs ! 0), (''income'', xs ! 1), (''education'', xs ! 2),
                   (''experience'', xs ! 3), (''credit_score'', xs ! 4)], True)
      \<and> rms_input_data (InNdarray (Nd1 dt xs)) =
        Inr (JObj [(''age'', xs ! 0), (''income'', xs ! 1), (''education'', xs ! 2),
                   (''experience'', xs ! 3), (''credit_score'', xs ! 4)], json_encodable dt))
   \<and> (length xs < 5 \<longrightarrow>
      rms_predict s (InList xs) run tmp fs =
        (Inr (rms_error ''Input array too short''), s\<lparr>model_ready := True\<rparr>, fs)
      \<and> rms_predict s (InNdarray (Nd1 dt xs)) run tmp fs =
        (Inr (rms_error ''Input array too short''), s\<lparr>model_ready := True\<rparr>, fs))
   \<and> (map_of kvs ''instances'' = None \<and> map_of kvs ''data'' = Some (JObj d)
        \<and> map_of d ''ndarray'' = Some (JArr (JArr row # rows)) \<longrightarrow>
      (length row \<ge> 5 \<longrightarrow>
         resolve_instance (JObj kvs) =
           Inr (JObj [(''age'', row ! 0), (''income'', row ! 1), (''education'', row ! 2),
                      (''experience'', row ! 3), (''credit_score'', row ! 4)]))
      \<and> (length row < 5 \<longrightarrow>
         flask_predict (JObj kvs) run =
           Inr (error_response (''Missing required feature: '' @ feature_names ! length row) 400)))"
proof -
  have len: "length feature_names = 5" by (simp add: feature_names_def)
  have a: "rms_input_data (InList xs) =
        Inr (JObj [(''age'', xs ! 0), (''income'', xs ! 1), (''education'', xs ! 2),
                   (''experience'', xs ! 3), (''credit_score'', xs ! 4)], True)
      \<and> rms_input_data (InNdarray (Nd1 dt xs)) =
        Inr (JObj [(''age'', xs ! 0), (''income'', xs ! 1), (''education'', xs ! 2),
                   (''experience'', xs ! 3), (''credit_score'', xs ! 4)], json_encodable dt)"
    if "length xs \<ge> 5"
    using that zip_features_positional [of xs] by (simp add: len)
  have b: "rms_predict s (InList xs) run tmp fs =
        (Inr (rms_error ''Input array too short''), s\<lparr>model_ready := True\<rparr>, fs)
      \<and> rms_predict s (InNdarray (Nd1 dt xs)) run tmp fs =
        (Inr (rms_error ''Input array too short''), s\<lparr>model_ready := True\<rparr>, fs)"
    if "length xs < 5"
  proof -
    have "rms_input_data (InList xs) = Inl (PyExc ValueError ''Input array too short'')"
      "rms_input_data (InNdarray (Nd1 dt xs)) = Inl (PyExc ValueError ''Input array too short'')"
      using that by (simp_all add: len)
    then show ?thesis by (simp add: rms_predict_input_error)
  qed
  have c: "(length row \<ge> 5 \<longrightarrow>
         resolve_instance (JObj kvs) =
           Inr (JObj [(''age'', row ! 0), (''income'', row ! 1), (''education'', row ! 2),
                      (''experience'', row ! 3), (''credit_score'', row ! 4)]))
      \<and> (length row < 5 \<longrightarrow>
         flask_predict (JObj kvs) run =
           Inr (error_response (''Missing required feature: '' @ feature_names ! length row) 400))"
    if h: "map_of kvs ''instances'' = None \<and> map_of kvs ''data'' = Some (JObj d)
        \<and> map_of d ''ndarray'' = Some (JArr (JArr row # rows))"
  proof -
    have r: "resolve_instance (JObj kvs) = Inr (JObj (zip feature_names row))"
      using h by (simp add: resolve_instance_def dict_zip_def)
    have t: "truthy (JObj kvs)" using h by auto
    have 1: "resolve_instance (JObj kvs) =
           Inr (JObj [(''age'', row ! 0), (''income'', row ! 1), (''education'', row ! 2),
                      (''experience'', row ! 3), (''credit_score'', row ! 4)])"
      if "length row \<ge> 5"
      using that r zip_names_positional [of row] by (simp add: len)
    have 2: "flask_predict (JObj kvs) run =
           Inr (error_response (''Missing required feature: '' @ feature_names ! length row) 400)"
      if "length row < 5"
      using that first_missing_short_row [of row] flask_predict_missing [OF t r]
      by (simp add: len)
    from 1 2 show ?thesis by blast
  qed
  from a b c show ?thesis by blast
qed

theorem array_form_positional_witness:
  "rms_input_data (InList example_row) = Inr (example_record, True)
   \<and> rms_predict init_rms (InList [JInt 35, JInt 75000, JInt 16]) no_worker ''/tmp/tmp0.json'' {}
       = (Inr (rms_error ''Input array too short''), \<lparr>model_ready = True\<rparr>, {})
   \<and> resolve_instance (JObj [(''data'', JObj [(''ndarray'', JArr [JArr example_row])])])
       = Inr example_record
   \<and> flask_predict short_request (answering 0.82)
       = Inr (error_response ''Missing required feature: experience'' 400)"
proof -
  note t = array_form_positional
  have l: "length example_row \<ge> 5" "length [JInt 35, JInt 75000, JInt 16] < 5"
    by (simp_all add: example_row_def)
  have e: "JObj [(''age'', example_row ! 0), (''income'', example_row ! 1),
      (''education'', example_row ! 2), (''experience'', example_row ! 3),
      (''credit_score'', example_row ! 4)] = example_record"
    by (simp add: example_row_def example_record_def)
  have r1: "rms_input_data (InList example_row) = Inr (example_record, True)"
    using t [where xs = example_row] l(1) e by simp
  have r2: "rms_predict init_rms (InList [JInt 35, JInt 75000, JInt 16]) no_worker
       ''/tmp/tmp0.json'' {}
       = (Inr (rms_error ''Input array too short''), \<lparr>model_ready = True\<rparr>, {})"
    using t [where xs = "[JInt 35, JInt 75000, JInt 16]" and s = init_rms and run = no_worker
        and tmp = "''/tmp/tmp0.json''" and fs = "{}"] l(2)
    by (simp add: init_rms_def)
  have m: "map_of [(''data'', JObj [(''ndarray'', JArr [JArr example_row])])] ''instances'' = None
     \<and> map_of [(''data'', JObj [(''ndarray'', JArr [JArr example_row])])] ''data''
          = Some (JObj [(''ndarray'', JArr [JArr example_row])])
     \<and> map_of [(''ndarray'', JArr [JArr example_row])] ''ndarray''
          = Some (JArr (JArr example_row # []))"
    by simp
  have r3: "resolve_instance (JObj [(''data'', JObj [(''ndarray'', JArr [JArr example_row])])])
       = Inr example_record"
    using t [where kvs = "[(''data'', JObj [(''ndarray'', JArr [JArr example_row])])]"
        and d = "[(''ndarray'', JArr [JArr example_row])]" and row = example_row
        and rows = "[]"] m l(1) e
    by simp
  have m': "map_of [(''data'', JObj [(''ndarray'', JArr [JArr [JInt 35, JInt 75000, JInt 16]])])]
        ''instances'' = None
     \<and> map_of [(''data'', JObj [(''ndarray'', JArr [JArr [JInt 35, JInt 75000, JInt 16]])])]
        ''data'' = Some (JObj [(''ndarray'', JArr [JArr [JInt 35, JInt 75000, JInt 16]])])
     \<and> map_of [(''ndarray'', JArr [JArr [JInt 35, JInt 75000, JInt 16]])] ''ndarray''
          = Some (JArr (JArr [JInt 35, JInt 75000, JInt 16] # []))"
    by simp
  have r4: "flask_predict short_request (answering 0.82)
       = Inr (error_response ''Missing required feature: experience'' 400)"
    using t [where kvs = "[(''data'', JObj [(''ndarray'', JArr [JArr [JInt 35, JInt 75000, JInt 16]])])]"
        and d = "[(''ndarray'', JArr [JArr [JInt 35, JInt 75000, JInt 16]])]"
        and row = "[JInt 35, JInt 75000, JInt 16]" and rows = "[]" and run = "answering 0.82"]
      m' l(2)
    by (simp add: short_request_def feature_names_def)
  from r1 r2 r3 r4 show ?thesis by blast
qed

subsection \<open>The temporary file\<close>

lemma rms_tempfile_removed:
  assumes "rms_input_data X = Inr (d, True)" "rms_validate d = Inr ()"
  shows "snd (snd (rms_predict s X run tmp fs)) = fs - {tmp}"
  using assms
  by (simp add: rms_predict_def rms_predict_body_def rms_with_tempfile_def Let_def
      split: sum.splits)

lemma rms_no_tempfile:
  assumes "rms_input_data X = Inl e \<or> (\<exists>d enc e. rms_input_data X = Inr (d, enc) \<and> rms_validate d = Inl e)"
  shows "snd (snd (rms_predict s X run tmp fs)) = fs"
  using assms
  by (auto simp: rms_predict_def rms_predict_body_def Let_def split: sum.splits)

text \<open>
  Claim C9 holds whenever \<^verbatim>\<open>json.dump\<close> succeeds (lemma \<open>rms_tempfile_removed\<close>),
  but not for \<^verbatim>\<open>X = numpy.array([35, 75000, 16, 10, 750])\<close>: the elements are
  \<^verbatim>\<open>numpy.int64\<close>, \<^verbatim>\<open>json.dump\<close> raises TypeError inside the \<^verbatim>\<open>with\<close> block, the
  \<^verbatim>\<open>try\<close> whose \<^verbatim>\<open>finally\<close> removes the file is never entered, and the file that
  \<^verbatim>\<open>NamedTemporaryFile(delete=False)\<close> created is still there after the call,
  whatever the worker, the name and the file system were.
\<close>

theorem tempfile_left_after_dump_error:
  "rms_predict s example_array run tmp fs =
     (Inr (rms_error ''Object is not JSON serializable''), s\<lparr>model_ready := True\<rparr>,
      insert tmp fs)"
  by (simp add: rms_predict_def rms_predict_body_def rms_with_tempfile_def rms_validate_def
      example_array_def example_row_def zip_features_def feature_names_def load_def Let_def)

subsection \<open>The model class never raises\<close>



end
